theory Spec2Isabelle
  imports Complex_Main
begin

section \<open>Floating-point values\<close>

text \<open>
  The notebook computes with IEEE-754 doubles (Python \<^verbatim>\<open>float\<close>, numpy
  \<^verbatim>\<open>float64\<close>). A double is modelled as a real number, one of the two
  infinities, or NaN, which is also how pandas stores a missing numeric cell. Finite
  arithmetic is exact: rounding and the sign of zero are not modelled, and overflow
  only where Python raises an exception on it (the power operator, see \<open>py_pow2\<close>;
  elsewhere an overflowing result is an infinity in Python and a large real here). The
  special values follow IEEE-754.
\<close>

datatype pyfloat = Fin real | PInf | NInf | NaN

fun fl_neg :: "pyfloat \<Rightarrow> pyfloat" where
  "fl_neg (Fin x) = Fin (- x)"
| "fl_neg PInf = NInf"
| "fl_neg NInf = PInf"
| "fl_neg NaN = NaN"

fun fl_add :: "pyfloat \<Rightarrow> pyfloat \<Rightarrow> pyfloat" where
  "fl_add NaN y = NaN"
| "fl_add x NaN = NaN"
| "fl_add (Fin x) (Fin y) = Fin (x + y)"
| "fl_add PInf NInf = NaN"
| "fl_add NInf PInf = NaN"
| "fl_add PInf y = PInf"
| "fl_add x PInf = PInf"
| "fl_add NInf y = NInf"
| "fl_add x NInf = NInf"

definition fl_sub :: "pyfloat \<Rightarrow> pyfloat \<Rightarrow> pyfloat" where
  "fl_sub x y = fl_add x (fl_neg y)"

text \<open>The infinity with the sign of \<open>s\<close>; \<open>inf * 0\<close> and \<open>0 / 0\<close> are NaN.\<close>

definition inf_of_sign :: "real \<Rightarrow> pyfloat" where
  "inf_of_sign s = (if 0 < s then PInf else if s < 0 then NInf else NaN)"

fun fl_mul :: "pyfloat \<Rightarrow> pyfloat \<Rightarrow> pyfloat" where
  "fl_mul NaN y = NaN"
| "fl_mul x NaN = NaN"
| "fl_mul (Fin x) (Fin y) = Fin (x * y)"
| "fl_mul (Fin x) PInf = inf_of_sign x"
| "fl_mul (Fin x) NInf = inf_of_sign (- x)"
| "fl_mul PInf (Fin y) = inf_of_sign y"
| "fl_mul NInf (Fin y) = inf_of_sign (- y)"
| "fl_mul PInf PInf = PInf"
| "fl_mul NInf NInf = PInf"
| "fl_mul PInf NInf = NInf"
| "fl_mul NInf PInf = NInf"

text \<open>
  Division as numpy and pandas do it: dividing by zero raises nothing, the quotient is
  an infinity or NaN.
\<close>

fun fl_div :: "pyfloat \<Rightarrow> pyfloat \<Rightarrow> pyfloat" where
  "fl_div NaN y = NaN"
| "fl_div x NaN = NaN"
| "fl_div (Fin x) (Fin y) = (if y = 0 then inf_of_sign x else Fin (x / y))"
| "fl_div (Fin x) PInf = Fin 0"
| "fl_div (Fin x) NInf = Fin 0"
| "fl_div PInf (Fin y) = (if 0 \<le> y then PInf else NInf)"
| "fl_div NInf (Fin y) = (if 0 \<le> y then NInf else PInf)"
| "fl_div x y = NaN"

text \<open>Comparisons: every comparison with NaN is false.\<close>

fun fl_le :: "pyfloat \<Rightarrow> pyfloat \<Rightarrow> bool" where
  "fl_le (Fin x) (Fin y) = (x \<le> y)"
| "fl_le NaN y = False"
| "fl_le x NaN = False"
| "fl_le NInf y = True"
| "fl_le x PInf = True"
| "fl_le x y = False"

fun fl_lt :: "pyfloat \<Rightarrow> pyfloat \<Rightarrow> bool" where
  "fl_lt (Fin x) (Fin y) = (x < y)"
| "fl_lt NaN y = False"
| "fl_lt x NaN = False"
| "fl_lt NInf NInf = False"
| "fl_lt NInf y = True"
| "fl_lt PInf y = False"
| "fl_lt x PInf = True"
| "fl_lt x y = False"

text \<open>
  Python's \<^verbatim>\<open>max(0, x)\<close>: the first argument is kept unless the second is
  greater, so \<^verbatim>\<open>max(0, nan)\<close> is 0.
\<close>

definition py_max0 :: "pyfloat \<Rightarrow> pyfloat" where
  "py_max0 x = (if fl_lt (Fin 0) x then x else Fin 0)"

subsection \<open>Errors\<close>

datatype error = ZeroDivisionError | OverflowError | ValueError | KeyError

text \<open>
  Python's \<^verbatim>\<open>/\<close> on two Python floats raises on a zero divisor, whatever
  the dividend. (When one operand is a numpy scalar, numpy divides instead: see
  \<open>fl_div\<close>.)
\<close>

definition py_truediv :: "pyfloat \<Rightarrow> pyfloat \<Rightarrow> error + pyfloat" where
  "py_truediv x y = (if y = Fin 0 then Inl ZeroDivisionError else Inr (fl_div x y))"

text \<open>
  Python's \<^verbatim>\<open>x ** 2\<close> on a Python float raises \<^verbatim>\<open>OverflowError\<close>
  when \<open>x\<close> is finite and the square is beyond the largest double,
  \<open>(2^53 - 1) * 2^971\<close> (that is for \<open>|x|\<close> above about 1.34e154). The square
  of an infinity is the positive infinity, the square of NaN is NaN, without exception.
\<close>

definition float_max :: real where
  "float_max = (2 ^ 53 - 1) * 2 ^ 971"

fun py_pow2 :: "pyfloat \<Rightarrow> error + pyfloat" where
  "py_pow2 (Fin x) = (if float_max < x * x then Inl OverflowError else Inr (Fin (x * x)))"
| "py_pow2 PInf = Inr PInf"
| "py_pow2 NInf = Inr PInf"
| "py_pow2 NaN = Inr NaN"

subsection \<open>Library functions\<close>

text \<open>
  \<^verbatim>\<open>np.log\<close>, \<^verbatim>\<open>np.sqrt\<close> and \<^verbatim>\<open>np.exp\<close> raise nothing:
  outside their domain they return NaN or an infinity.
\<close>

fun np_log :: "pyfloat \<Rightarrow> pyfloat" where
  "np_log (Fin x) = (if 0 < x then Fin (ln x) else if x = 0 then NInf else NaN)"
| "np_log PInf = PInf"
| "np_log NInf = NaN"
| "np_log NaN = NaN"

fun np_sqrt :: "pyfloat \<Rightarrow> pyfloat" where
  "np_sqrt (Fin x) = (if 0 \<le> x then Fin (sqrt x) else NaN)"
| "np_sqrt PInf = PInf"
| "np_sqrt NInf = NaN"
| "np_sqrt NaN = NaN"

fun np_exp :: "pyfloat \<Rightarrow> pyfloat" where
  "np_exp (Fin x) = Fin (exp x)"
| "np_exp PInf = PInf"
| "np_exp NInf = Fin 0"
| "np_exp NaN = NaN"

text \<open>
  \<^verbatim>\<open>scipy.stats.norm.cdf\<close> is not part of the repository: the cumulative
  distribution function on the reals is a parameter \<open>Phi\<close> of the model, extended to
  the special values as scipy does.
\<close>

fun norm_cdf :: "(real \<Rightarrow> real) \<Rightarrow> pyfloat \<Rightarrow> pyfloat" where
  "norm_cdf Phi (Fin x) = Fin (Phi x)"
| "norm_cdf Phi PInf = Fin 1"
| "norm_cdf Phi NInf = Fin 0"
| "norm_cdf Phi NaN = NaN"

text \<open>
  The function \<^verbatim>\<open>norm.cdf\<close> approximates: the standard normal distribution
  function, by its power series around 0.
\<close>

definition cdf_term :: "real \<Rightarrow> nat \<Rightarrow> real" where
  "cdf_term x n = (- 1) ^ n * x ^ (2 * n + 1) / (fact n * 2 ^ n * real (2 * n + 1))"

definition std_normal_cdf :: "real \<Rightarrow> real" where
  "std_normal_cdf x = 1 / 2 + (\<Sum>n. cdf_term x n) / sqrt (2 * pi)"

section \<open>The pricer\<close>

text \<open>
  \<^verbatim>\<open>black_scholes_price(S, K, T, r, sigma, option_type='call')\<close>. The guard is
  evaluated first; \<^verbatim>\<open>S / K\<close>, the first operation after it, is Python's
  division, and \<^verbatim>\<open>sigma ** 2\<close>, the next one that can raise, Python's power.
\<close>

definition black_scholes_price ::
  "(real \<Rightarrow> real) \<Rightarrow> pyfloat \<Rightarrow> pyfloat \<Rightarrow> pyfloat \<Rightarrow> pyfloat \<Rightarrow> pyfloat \<Rightarrow> string
    \<Rightarrow> error + pyfloat" where
  "black_scholes_price Phi S K T r sigma option_type =
    (if fl_le T (Fin 0) \<or> fl_le sigma (Fin 0) then
       Inr (if option_type = ''call'' then py_max0 (fl_sub S K) else py_max0 (fl_sub K S))
     else
       case py_truediv S K of
         Inl e \<Rightarrow> Inl e
       | Inr q \<Rightarrow>
           (case py_pow2 sigma of
              Inl e \<Rightarrow> Inl e
            | Inr sigma2 \<Rightarrow>
                let d1 = fl_div
                           (fl_add (np_log q)
                              (fl_mul (fl_add r (fl_mul (Fin (1/2)) sigma2)) T))
                           (fl_mul sigma (np_sqrt T));
                    d2 = fl_sub d1 (fl_mul sigma (np_sqrt T))
                in if option_type = ''call'' then
                     Inr (fl_sub (fl_mul S (norm_cdf Phi d1))
                            (fl_mul (fl_mul K (np_exp (fl_mul (fl_neg r) T))) (norm_cdf Phi d2)))
                   else
                     Inr (fl_sub
                            (fl_mul (fl_mul K (np_exp (fl_mul (fl_neg r) T))) (norm_cdf Phi (fl_neg d2)))
                            (fl_mul S (norm_cdf Phi (fl_neg d1))))))"

section \<open>Dates and timestamps\<close>

text \<open>
  The \<^verbatim>\<open>expiration\<close> column arrives as ISO date strings
  (\<^verbatim>\<open>'2025-03-14'\<close>); a cell is modelled by its year, month and day.
  A pandas \<^verbatim>\<open>Timestamp\<close> is a count of nanoseconds since 1970-01-01 00:00
  (the bounds of its 64-bit representation, years 1677 to 2262, are not modelled).
\<close>

datatype date = Date nat nat nat

type_synonym timestamp = int

definition is_leap :: "nat \<Rightarrow> bool" where
  "is_leap y = (y mod 4 = 0 \<and> (y mod 100 \<noteq> 0 \<or> y mod 400 = 0))"

definition month_lengths :: "nat list" where
  "month_lengths = [31, 28, 31, 30, 31, 30, 31, 31, 30, 31, 30, 31]"

definition days_in_month :: "nat \<Rightarrow> nat \<Rightarrow> nat" where
  "days_in_month y m = (if m = 2 \<and> is_leap y then 29 else month_lengths ! (m - 1))"

fun valid_date :: "date \<Rightarrow> bool" where
  "valid_date (Date y m d) =
     (1 \<le> y \<and> y \<le> 9999 \<and> 1 \<le> m \<and> m \<le> 12 \<and> 1 \<le> d \<and> d \<le> days_in_month y m)"

text \<open>The proleptic Gregorian day number: 1 for 0001-01-01, 719163 for 1970-01-01.\<close>

definition days_before_year :: "nat \<Rightarrow> int" where
  "days_before_year y =
     (let p = int y - 1 in p * 365 + p div 4 - p div 100 + p div 400)"

definition days_before_month :: "nat \<Rightarrow> nat \<Rightarrow> int" where
  "days_before_month y m =
     int (sum_list (take (m - 1) month_lengths)) + (if 2 < m \<and> is_leap y then 1 else 0)"

fun date_ordinal :: "date \<Rightarrow> int" where
  "date_ordinal (Date y m d) = days_before_year y + days_before_month y m + int d"

definition day_ns :: int where
  "day_ns = 86400000000000"

text \<open>
  \<^verbatim>\<open>pd.to_datetime\<close> on one cell: midnight of the date, or an exception when
  the string is not a date of the calendar.
\<close>

definition to_datetime :: "date \<Rightarrow> error + timestamp" where
  "to_datetime d =
     (if valid_date d then Inr ((date_ordinal d - 719163) * day_ns) else Inl ValueError)"

text \<open>\<^verbatim>\<open>Timestamp.normalize()\<close>: the time of day is set to midnight.\<close>

definition normalize :: "timestamp \<Rightarrow> timestamp" where
  "normalize t = t - t mod day_ns"

text \<open>\<^verbatim>\<open>Timedelta.days\<close>: whole days, rounded towards minus infinity.\<close>

definition td_days :: "int \<Rightarrow> int" where
  "td_days delta = delta div day_ns"

section \<open>Data frames\<close>

text \<open>
  A data frame is the list of its rows; a row is a record of the columns the notebook
  reads or writes. The column \<^verbatim>\<open>type\<close> is the field \<open>opt_type\<close> and the
  column \<^verbatim>\<open>T\<close> the field \<open>T_col\<close>. The \<^verbatim>\<open>expiration\<close> column
  holds dates before the enrichment and timestamps after it. A frame of this type has
  its columns also when it has no row (the frame without any column, on which the first
  column access raises \<^verbatim>\<open>KeyError\<close>, is not a value of the type).
\<close>

record 'e option_row =
  contractSymbol :: string
  opt_type :: string
  strike :: pyfloat
  lastPrice :: pyfloat
  impliedVolatility :: pyfloat
  expiration :: 'e

record enriched_row = "timestamp option_row" +
  moneyness :: pyfloat
  days_to_expiration :: int

record priced_row = enriched_row +
  T_col :: pyfloat
  bs_price :: pyfloat
  pricing_error :: pyfloat

text \<open>
  A function applied to the rows (or cells) in order, as \<^verbatim>\<open>df.apply(f, axis=1)\<close>
  does: the first exception ends the whole call.
\<close>

fun df_apply :: "('a \<Rightarrow> error + 'b) \<Rightarrow> 'a list \<Rightarrow> error + 'b list" where
  "df_apply f [] = Inr []"
| "df_apply f (x # xs) =
     (case f x of
        Inl e \<Rightarrow> Inl e
      | Inr y \<Rightarrow> (case df_apply f xs of Inl e \<Rightarrow> Inl e | Inr ys \<Rightarrow> Inr (y # ys)))"

section \<open>The enricher\<close>

text \<open>
  \<^verbatim>\<open>enrich_option_data(df, underlying_price)\<close>. The function reads the clock
  (\<^verbatim>\<open>pd.Timestamp.today()\<close>): the reading is the argument \<open>today\<close> of the
  model. The columns are assigned one after the other; \<open>enrich_row\<close> is what they give
  on one row. The division is pandas' (no exception on zero).
\<close>

definition enrich_row :: "timestamp \<Rightarrow> pyfloat \<Rightarrow> date option_row \<Rightarrow> error + enriched_row" where
  "enrich_row current_date underlying_price row =
     (case to_datetime (expiration row) of
        Inl e \<Rightarrow> Inl e
      | Inr stamp \<Rightarrow>
          Inr \<lparr> contractSymbol = contractSymbol row,
                opt_type = opt_type row,
                strike = strike row,
                lastPrice = lastPrice row,
                impliedVolatility = impliedVolatility row,
                expiration = stamp,
                moneyness = fl_div (strike row) underlying_price,
                days_to_expiration = td_days (stamp - current_date) \<rparr>)"

definition enrich_option_data ::
  "timestamp \<Rightarrow> date option_row list \<Rightarrow> pyfloat \<Rightarrow> error + enriched_row list" where
  "enrich_option_data today df underlying_price =
     (let current_date = normalize today
      in df_apply (enrich_row current_date underlying_price) df)"

section \<open>The batch pricing driver\<close>

text \<open>
  \<^verbatim>\<open>calculate_bs_prices(df, S, r=0.045)\<close>: the rate is optional. \<open>price_row\<close>
  is the lambda applied to each row, together with the two column assignments around
  it.
\<close>

definition price_row :: "(real \<Rightarrow> real) \<Rightarrow> pyfloat \<Rightarrow> pyfloat \<Rightarrow> enriched_row \<Rightarrow> error + priced_row" where
  "price_row Phi S r row =
     (let T = fl_div (Fin (real_of_int (days_to_expiration row))) (Fin 365)
      in case black_scholes_price Phi S (strike row) T r (impliedVolatility row) (opt_type row) of
           Inl e \<Rightarrow> Inl e
         | Inr p \<Rightarrow>
             Inr \<lparr> contractSymbol = contractSymbol row,
                   opt_type = opt_type row,
                   strike = strike row,
                   lastPrice = lastPrice row,
                   impliedVolatility = impliedVolatility row,
                   expiration = expiration row,
                   moneyness = moneyness row,
                   days_to_expiration = days_to_expiration row,
                   T_col = T,
                   bs_price = p,
                   pricing_error = fl_sub (lastPrice row) p \<rparr>)"

definition calculate_bs_prices ::
  "(real \<Rightarrow> real) \<Rightarrow> enriched_row list \<Rightarrow> pyfloat \<Rightarrow> pyfloat option \<Rightarrow> error + priced_row list" where
  "calculate_bs_prices Phi df S r_opt =
     (let r = (case r_opt of None \<Rightarrow> Fin (45 / 1000) | Some r' \<Rightarrow> r')
      in df_apply (price_row Phi S r) df)"

text \<open>
  The last cell of the notebook: the enriched frame goes to the driver with the same
  underlying price and the default rate.
\<close>

definition pipeline ::
  "(real \<Rightarrow> real) \<Rightarrow> timestamp \<Rightarrow> date option_row list \<Rightarrow> pyfloat \<Rightarrow> error + priced_row list" where
  "pipeline Phi today df S =
     (case enrich_option_data today df S of
        Inl e \<Rightarrow> Inl e
      | Inr enriched_df \<Rightarrow> calculate_bs_prices Phi enriched_df S None)"

section \<open>The two stages on data-frame objects\<close>

text \<open>
  Data frames are mutable objects and a Python name holds a reference. The store is the
  list of the live frames, a reference is an index into it (Python has no dangling
  reference: the functions are applied to \<open>df < length st\<close>). Both stages start with
  \<^verbatim>\<open>df = df.copy()\<close>, which allocates a new frame and rebinds the local name;
  every later assignment (\<^verbatim>\<open>df["moneyness"] = ...\<close>,
  \<^verbatim>\<open>df.drop(..., inplace=True)\<close>) writes to the object the name then refers to.
  When a row raises, the copy, which nothing refers to any more, is left as it was.
\<close>

datatype frame =
  RawFrame "date option_row list"
| EnrichedFrame "enriched_row list"
| PricedFrame "priced_row list"

type_synonym store = "frame list"

definition df_copy :: "store \<Rightarrow> nat \<Rightarrow> store \<times> nat" where
  "df_copy st a = (st @ [st ! a], length st)"

text \<open>
  On a frame that was enriched before, \<^verbatim>\<open>pd.to_datetime\<close> leaves the
  timestamps as they are and the two derived columns are overwritten.
\<close>

definition re_enrich :: "timestamp \<Rightarrow> pyfloat \<Rightarrow> 'a enriched_row_scheme \<Rightarrow> 'a enriched_row_scheme" where
  "re_enrich current_date underlying_price row =
     row \<lparr> moneyness := fl_div (strike row) underlying_price,
           days_to_expiration := td_days (expiration row - current_date) \<rparr>"

definition enrich_option_data_obj ::
  "timestamp \<Rightarrow> store \<Rightarrow> nat \<Rightarrow> pyfloat \<Rightarrow> store \<times> (error + nat)" where
  "enrich_option_data_obj today st df underlying_price =
     (let (st1, d) = df_copy st df;
          current_date = normalize today
      in case st1 ! d of
           RawFrame rows \<Rightarrow>
             (case enrich_option_data today rows underlying_price of
                Inl e \<Rightarrow> (st1, Inl e)
              | Inr out \<Rightarrow> (st1[d := EnrichedFrame out], Inr d))
         | EnrichedFrame rows \<Rightarrow>
             (st1[d := EnrichedFrame (map (re_enrich current_date underlying_price) rows)], Inr d)
         | PricedFrame rows \<Rightarrow>
             (st1[d := PricedFrame (map (re_enrich current_date underlying_price) rows)], Inr d))"

text \<open>
  The driver reads \<^verbatim>\<open>df["days_to_expiration"]\<close> first: on a frame that was not
  enriched this is a \<^verbatim>\<open>KeyError\<close>. On a frame that was priced before, the three
  columns are computed again from the others.
\<close>

definition calculate_bs_prices_obj ::
  "(real \<Rightarrow> real) \<Rightarrow> store \<Rightarrow> nat \<Rightarrow> pyfloat \<Rightarrow> pyfloat option \<Rightarrow> store \<times> (error + nat)" where
  "calculate_bs_prices_obj Phi st df S r_opt =
     (let (st1, d) = df_copy st df
      in case st1 ! d of
           RawFrame rows \<Rightarrow> (st1, Inl KeyError)
         | EnrichedFrame rows \<Rightarrow>
             (case calculate_bs_prices Phi rows S r_opt of
                Inl e \<Rightarrow> (st1, Inl e)
              | Inr out \<Rightarrow> (st1[d := PricedFrame out], Inr d))
         | PricedFrame rows \<Rightarrow>
             (case calculate_bs_prices Phi (map enriched_row.truncate rows) S r_opt of
                Inl e \<Rightarrow> (st1, Inl e)
              | Inr out \<Rightarrow> (st1[d := PricedFrame out], Inr d)))"

section \<open>Auxiliary facts\<close>

subsection \<open>Finite arithmetic\<close>

lemma py_max0_Fin: "py_max0 (Fin x) = Fin (max 0 x)"
  by (simp add: py_max0_def max_def)

lemma fl_sub_Fin: "fl_sub (Fin x) (Fin y) = Fin (x - y)"
  by (simp add: fl_sub_def)

subsection \<open>The range of the doubles\<close>

lemma float_max_ge_one: "1 \<le> float_max"
  by (simp add: float_max_def)

lemma le_one_le_float_max: "y \<le> 1 \<Longrightarrow> y \<le> float_max"
  using float_max_ge_one by simp

lemma float_max_less: "float_max < (10 ^ 200) * (10 ^ 200)"
  by (simp add: float_max_def)

lemma py_pow2_Fin: "x\<^sup>2 \<le> float_max \<Longrightarrow> py_pow2 (Fin x) = Inr (Fin (x\<^sup>2))"
  by (simp add: power2_eq_square)

lemma py_pow2_small: "\<bar>x\<bar> \<le> 1 \<Longrightarrow> py_pow2 (Fin x) = Inr (Fin (x\<^sup>2))"
  by (rule py_pow2_Fin) (simp add: le_one_le_float_max abs_square_le_1)

lemma py_pow2_Inl_iff:
  "py_pow2 y = Inl e \<longleftrightarrow> e = OverflowError \<and> (\<exists>x. y = Fin x \<and> float_max < x\<^sup>2)"
  by (cases y) (auto simp: power2_eq_square)

subsection \<open>The distribution function is symmetric\<close>

lemma cdf_term_minus: "cdf_term (- x) n = - cdf_term x n"
  by (simp add: cdf_term_def)

lemma summable_cdf_term: "summable (cdf_term x)"
proof (rule summable_comparison_test')
  show "summable (\<lambda>n. \<bar>x\<bar> * (inverse (fact n) * (x\<^sup>2 / 2) ^ n))"
    by (intro summable_mult summable_exp)
next
  fix n :: nat
  assume "n \<ge> 0"
  have a: "\<bar>x ^ (2 * n + 1)\<bar> = \<bar>x\<bar> * (x\<^sup>2) ^ n"
    by (simp add: power_mult abs_mult)
  have "norm (cdf_term x n) = \<bar>x\<bar> * (x\<^sup>2) ^ n / (fact n * 2 ^ n * real (2 * n + 1))"
    unfolding cdf_term_def real_norm_def abs_divide abs_mult a by (simp add: power_abs)
  also have "\<dots> = \<bar>x\<bar> * (inverse (fact n) * (x\<^sup>2 / 2) ^ n) / real (2 * n + 1)"
    by (simp add: power_divide divide_simps)
  also have "\<dots> \<le> \<bar>x\<bar> * (inverse (fact n) * (x\<^sup>2 / 2) ^ n) / 1"
    by (intro divide_left_mono) (auto intro!: mult_nonneg_nonneg)
  finally show "norm (cdf_term x n) \<le> \<bar>x\<bar> * (inverse (fact n) * (x\<^sup>2 / 2) ^ n)" by simp
qed

lemma std_normal_cdf_symmetric: "std_normal_cdf x + std_normal_cdf (- x) = 1"
proof -
  have "(\<Sum>n. cdf_term (- x) n) = - (\<Sum>n. cdf_term x n)"
    unfolding cdf_term_minus by (rule suminf_minus [OF summable_cdf_term])
  then show ?thesis by (simp add: std_normal_cdf_def)
qed

subsection \<open>NaN is absorbing\<close>

lemma fl_add_NaN_right: "fl_add x NaN = NaN"
  by (cases x) simp_all

lemma fl_sub_NaN_right: "fl_sub x NaN = NaN"
  by (simp add: fl_sub_def fl_add_NaN_right)

lemma fl_sub_NaN_left: "fl_sub NaN y = NaN"
  by (simp add: fl_sub_def)

lemma fl_mul_NaN_right: "fl_mul x NaN = NaN"
  by (cases x) simp_all

lemma fl_div_NaN_right: "fl_div x NaN = NaN"
  by (cases x) simp_all

subsection \<open>The pricer, branch by branch\<close>

lemma bs_edge_case:
  "fl_le T (Fin 0) \<or> fl_le sigma (Fin 0) \<Longrightarrow>
     black_scholes_price Phi S K T r sigma ty =
       Inr (if ty = ''call'' then py_max0 (fl_sub S K) else py_max0 (fl_sub K S))"
  by (simp add: black_scholes_price_def)

lemma bs_formula:
  assumes "0 < S" "0 < K" "0 < T" "0 < sigma" "sigma\<^sup>2 \<le> float_max"
  shows "black_scholes_price Phi (Fin S) (Fin K) (Fin T) (Fin r) (Fin sigma) ty =
    (let d1 = (ln (S / K) + (r + 1/2 * sigma^2) * T) / (sigma * sqrt T);
         d2 = d1 - sigma * sqrt T
     in if ty = ''call'' then Inr (Fin (S * Phi d1 - K * exp (- r * T) * Phi d2))
        else Inr (Fin (K * exp (- r * T) * Phi (- d2) - S * Phi (- d1))))"
  using assms
  by (simp add: black_scholes_price_def py_truediv_def fl_sub_Fin Let_def power2_eq_square not_less)

lemma bs_NaN_sigma:
  assumes "\<not> fl_le T (Fin 0)" "K \<noteq> Fin 0"
  shows "black_scholes_price Phi S K T r NaN ty = Inr NaN"
  using assms
  by (simp add: black_scholes_price_def py_truediv_def Let_def fl_div_NaN_right
      fl_mul_NaN_right fl_sub_NaN_left)

lemma bs_failure:
  "black_scholes_price Phi S K T r sigma ty = Inl e \<longleftrightarrow>
     \<not> fl_le T (Fin 0) \<and> \<not> fl_le sigma (Fin 0) \<and>
     (e = ZeroDivisionError \<and> K = Fin 0
      \<or> e = OverflowError \<and> K \<noteq> Fin 0 \<and> (\<exists>x. sigma = Fin x \<and> float_max < x\<^sup>2))"
proof (cases "fl_le T (Fin 0) \<or> fl_le sigma (Fin 0)")
  case True
  then show ?thesis by (auto simp: black_scholes_price_def)
next
  case guard: False
  show ?thesis
  proof (cases "K = Fin 0")
    case True
    with guard show ?thesis
      by (auto simp: black_scholes_price_def py_truediv_def)
  next
    case False
    show ?thesis
    proof (cases "py_pow2 sigma")
      case (Inl e')
      with guard False py_pow2_Inl_iff [of sigma e'] show ?thesis
        by (auto simp: black_scholes_price_def py_truediv_def)
    next
      case (Inr s2)
      then have "\<not> (\<exists>x. sigma = Fin x \<and> float_max < x\<^sup>2)"
        using py_pow2_Inl_iff [of sigma OverflowError] by auto
      with guard False Inr show ?thesis
        by (auto simp: black_scholes_price_def py_truediv_def Let_def)
    qed
  qed
qed

lemma bs_returns_iff:
  "(\<exists>y. black_scholes_price Phi S K T r sigma ty = Inr y) \<longleftrightarrow>
     fl_le T (Fin 0) \<or> fl_le sigma (Fin 0)
     \<or> K \<noteq> Fin 0 \<and> \<not> (\<exists>x. sigma = Fin x \<and> float_max < x\<^sup>2)"
proof -
  have "(\<exists>y. black_scholes_price Phi S K T r sigma ty = Inr y) \<longleftrightarrow>
      \<not> (\<exists>e. black_scholes_price Phi S K T r sigma ty = Inl e)"
    by (cases "black_scholes_price Phi S K T r sigma ty") simp_all
  then show ?thesis
    unfolding bs_failure by blast
qed

subsection \<open>Row-wise application\<close>

lemma df_apply_Inr_iff:
  "df_apply f xs = Inr ys \<longleftrightarrow> length ys = length xs \<and> (\<forall>i<length xs. f (xs ! i) = Inr (ys ! i))"
proof (induction xs arbitrary: ys)
  case Nil
  then show ?case by auto
next
  case (Cons x xs)
  show ?case
  proof (cases ys)
    case Nil
    then show ?thesis by (auto split: sum.splits)
  next
    case (Cons y ys')
    then show ?thesis
      using Cons.IH [of ys'] by (auto simp: nth_Cons split: sum.splits nat.splits)
  qed
qed

lemma df_apply_append:
  "df_apply f (xs @ ys) =
     (case df_apply f xs of
        Inl e \<Rightarrow> Inl e
      | Inr us \<Rightarrow> (case df_apply f ys of Inl e \<Rightarrow> Inl e | Inr vs \<Rightarrow> Inr (us @ vs)))"
  by (induction xs) (auto split: sum.splits)

lemma df_apply_Inl:
  "df_apply f xs = Inl e \<Longrightarrow> \<exists>x\<in>set xs. f x = Inl e"
  by (induction xs) (auto split: sum.splits)

lemma df_apply_total:
  "(\<And>x. x \<in> set xs \<Longrightarrow> \<exists>y. f x = Inr y) \<Longrightarrow> \<exists>ys. df_apply f xs = Inr ys"
  by (induction xs) (fastforce split: sum.splits)+

lemma price_row_Inr_iff:
  "price_row Phi S r row = Inr p \<longleftrightarrow>
     black_scholes_price Phi S (strike row) (Fin (real_of_int (days_to_expiration row) / 365)) r
        (impliedVolatility row) (opt_type row) = Inr (bs_price p)
     \<and> pricing_error p = fl_sub (lastPrice row) (bs_price p)
     \<and> T_col p = Fin (real_of_int (days_to_expiration row) / 365)
     \<and> enriched_row.truncate p = row"
  by (cases p; cases row) (auto simp: price_row_def enriched_row.truncate_def Let_def split: sum.splits)

lemma price_row_missing_volatility:
  assumes "impliedVolatility bad = NaN" "strike bad \<noteq> Fin 0"
  shows "price_row Phi S r bad =
     Inr \<lparr> contractSymbol = contractSymbol bad, opt_type = opt_type bad, strike = strike bad,
           lastPrice = lastPrice bad, impliedVolatility = NaN, expiration = expiration bad,
           moneyness = moneyness bad, days_to_expiration = days_to_expiration bad,
           T_col = Fin (real_of_int (days_to_expiration bad) / 365),
           bs_price =
             (if 0 < days_to_expiration bad then NaN
              else if opt_type bad = ''call'' then py_max0 (fl_sub S (strike bad))
              else py_max0 (fl_sub (strike bad) S)),
           pricing_error =
             (if 0 < days_to_expiration bad then NaN
              else if opt_type bad = ''call''
                then fl_sub (lastPrice bad) (py_max0 (fl_sub S (strike bad)))
              else fl_sub (lastPrice bad) (py_max0 (fl_sub (strike bad) S))) \<rparr>"
proof (cases "0 < days_to_expiration bad")
  case True
  then have "\<not> fl_le (Fin (real_of_int (days_to_expiration bad) / 365)) (Fin 0)"
    by simp
  from bs_NaN_sigma [OF this assms(2)] assms(1) True show ?thesis
    by (simp add: price_row_def fl_sub_NaN_right)
next
  case False
  then have "fl_le (Fin (real_of_int (days_to_expiration bad) / 365)) (Fin 0)"
    by (simp add: divide_le_0_iff)
  then have "black_scholes_price Phi S (strike bad) (Fin (real_of_int (days_to_expiration bad) / 365)) r
      (impliedVolatility bad) (opt_type bad) =
      Inr (if opt_type bad = ''call'' then py_max0 (fl_sub S (strike bad))
           else py_max0 (fl_sub (strike bad) S))"
    by (simp add: bs_edge_case)
  with False assms(1) show ?thesis
    by (simp add: price_row_def)
qed

lemma calculate_bs_prices_total:
  assumes "\<forall>row\<in>set df. strike row \<noteq> Fin 0
             \<and> py_pow2 (impliedVolatility row) \<noteq> Inl OverflowError"
  shows "\<exists>out. calculate_bs_prices Phi df S r_opt = Inr out"
  unfolding calculate_bs_prices_def Let_def
proof (rule df_apply_total)
  fix row assume "row \<in> set df"
  with assms have "strike row \<noteq> Fin 0"
    and "\<forall>x. impliedVolatility row = Fin x \<longrightarrow> x\<^sup>2 \<le> float_max"
    by (auto simp: py_pow2_Inl_iff not_less)
  then have "\<And>e. black_scholes_price Phi S (strike row)
          (fl_div (Fin (real_of_int (days_to_expiration row))) (Fin 365))
          (case r_opt of None \<Rightarrow> Fin (45 / 1000) | Some r' \<Rightarrow> r')
          (impliedVolatility row) (opt_type row) \<noteq> Inl e"
    unfolding bs_failure by (auto simp: not_less)
  then show "\<exists>y. price_row Phi S (case r_opt of None \<Rightarrow> Fin (45 / 1000) | Some r' \<Rightarrow> r') row = Inr y"
    by (cases "black_scholes_price Phi S (strike row)
          (fl_div (Fin (real_of_int (days_to_expiration row))) (Fin 365))
          (case r_opt of None \<Rightarrow> Fin (45 / 1000) | Some r' \<Rightarrow> r')
          (impliedVolatility row) (opt_type row)")
       (simp_all add: price_row_def)
qed

lemma calculate_bs_prices_rows:
  assumes "calculate_bs_prices Phi df S r_opt = Inr out" "i < length df"
  shows "length out = length df"
    and "enriched_row.truncate (out ! i) = df ! i"
    and "T_col (out ! i) = Fin (real_of_int (days_to_expiration (df ! i)) / 365)"
  using assms unfolding calculate_bs_prices_def Let_def df_apply_Inr_iff price_row_Inr_iff
  by simp_all

lemma truncate_days_to_expiration:
  "enriched_row.truncate p = row \<Longrightarrow> days_to_expiration p = days_to_expiration row"
  by (cases p) (auto simp: enriched_row.truncate_def)

subsection \<open>Dates and the enrichment of one row\<close>

lemma normalize_within_day:
  assumes "0 \<le> tod" "tod < day_ns"
  shows "normalize (n * day_ns + tod) = n * day_ns"
  using assms by (simp add: normalize_def)

lemma td_days_whole: "td_days (a * day_ns - b * day_ns) = a - b"
proof -
  have "a * day_ns - b * day_ns = (a - b) * day_ns"
    by (simp add: algebra_simps)
  then show ?thesis
    by (simp add: td_days_def day_ns_def)
qed

lemma enrich_row_Inr_iff:
  "enrich_row current_date p row = Inr out \<longleftrightarrow>
     valid_date (expiration row) \<and>
     out = \<lparr> contractSymbol = contractSymbol row, opt_type = opt_type row, strike = strike row,
             lastPrice = lastPrice row, impliedVolatility = impliedVolatility row,
             expiration = (date_ordinal (expiration row) - 719163) * day_ns,
             moneyness = fl_div (strike row) p,
             days_to_expiration =
               td_days ((date_ordinal (expiration row) - 719163) * day_ns - current_date) \<rparr>"
  by (auto simp: enrich_row_def to_datetime_def)

lemma enrich_row_Inl_iff:
  "enrich_row current_date p row = Inl e \<longleftrightarrow> e = ValueError \<and> \<not> valid_date (expiration row)"
  by (auto simp: enrich_row_def to_datetime_def)

subsection \<open>The stages on objects\<close>

lemma enrich_option_data_obj_frame:
  assumes "enrich_option_data_obj today st df p = (st', res)"
  shows "(\<forall>a<length st. st' ! a = st ! a) \<and> length st' = Suc (length st)
       \<and> (\<forall>d. res = Inr d \<longrightarrow> d = length st)"
  using assms
  by (auto simp: enrich_option_data_obj_def df_copy_def Let_def nth_append
      split: frame.splits sum.splits)

lemma calculate_bs_prices_obj_frame:
  assumes "calculate_bs_prices_obj Phi st df S r_opt = (st', res)"
  shows "(\<forall>a<length st. st' ! a = st ! a) \<and> length st' = Suc (length st)
       \<and> (\<forall>d. res = Inr d \<longrightarrow> d = length st)"
  using assms
  by (auto simp: calculate_bs_prices_obj_def df_copy_def Let_def nth_append
      split: frame.splits sum.splits)

section \<open>The pricer: edge cases, parity, kind dispatch\<close>

text \<open>
  Claim C1. Whenever the guard \<^verbatim>\<open>T <= 0 or sigma <= 0\<close> holds, the pricer
  returns exactly the intrinsic value, \<open>max 0 (S - K)\<close> for a call and
  \<open>max 0 (K - S)\<close> for a put, for all finite \<open>S\<close> and \<open>K\<close> (zero and
  negative ones included) and every rate. The result is the same for every distribution
  function \<open>Phi\<close>, contains no logarithm, root or exponential, and is not the
  exception of the division \<^verbatim>\<open>S / K\<close>: the branch is left before any of them
  is computed.
\<close>

theorem intrinsic_value_edge_case:
  assumes "fl_le T (Fin 0) \<or> fl_le sigma (Fin 0)"
  shows "black_scholes_price Phi (Fin S) (Fin K) T r sigma ''call'' = Inr (Fin (max 0 (S - K)))
       \<and> black_scholes_price Phi (Fin S) (Fin K) T r sigma ''put'' = Inr (Fin (max 0 (K - S)))"
  using assms by (simp add: black_scholes_price_def py_max0_Fin fl_sub_Fin)

theorem intrinsic_value_edge_case_witness:
  "black_scholes_price std_normal_cdf (Fin 150) (Fin 100) (Fin 0) (Fin (45 / 1000)) (Fin (1 / 4)) ''call'' = Inr (Fin 50)
   \<and> black_scholes_price std_normal_cdf (Fin 150) (Fin 100) (Fin 0) (Fin (45 / 1000)) (Fin (1 / 4)) ''put'' = Inr (Fin 0)
   \<and> black_scholes_price std_normal_cdf (Fin 90) (Fin 0) (Fin (1 / 2)) (Fin (45 / 1000)) (Fin (- 1)) ''call'' = Inr (Fin 90)
   \<and> black_scholes_price std_normal_cdf (Fin 90) (Fin 100) (Fin (- 3 / 365)) (Fin (45 / 1000)) NaN ''put'' = Inr (Fin 10)"
  using intrinsic_value_edge_case [of "Fin 0" "Fin (1 / 4)" std_normal_cdf 150 100 "Fin (45 / 1000)"]
    intrinsic_value_edge_case [of "Fin (1 / 2)" "Fin (- 1)" std_normal_cdf 90 0 "Fin (45 / 1000)"]
    intrinsic_value_edge_case [of "Fin (- 3 / 365)" NaN std_normal_cdf 90 100 "Fin (45 / 1000)"]
  by simp

text \<open>
  Claim C6. Put-call parity: for positive \<open>S\<close>, \<open>K\<close>, \<open>T\<close>, \<open>sigma\<close> and any
  rate, both prices are finite and the call price minus the put price is
  \<open>S - K * exp (- r * T)\<close>, over the reals, for every distribution function with
  \<open>Phi x + Phi (- x) = 1\<close>. The volatility is one whose square is a double
  (\<open>sigma\<close> up to about 1.34e154): beyond that \<^verbatim>\<open>sigma ** 2\<close> raises and
  there are no two prices to compare.
\<close>

theorem put_call_parity:
  assumes "\<forall>x. Phi x + Phi (- x) = 1" "0 < S" "0 < K" "0 < T" "0 < sigma"
    and "sigma\<^sup>2 \<le> float_max"
  shows "\<exists>c p. black_scholes_price Phi (Fin S) (Fin K) (Fin T) (Fin r) (Fin sigma) ''call'' = Inr (Fin c)
       \<and> black_scholes_price Phi (Fin S) (Fin K) (Fin T) (Fin r) (Fin sigma) ''put'' = Inr (Fin p)
       \<and> c - p = S - K * exp (- r * T)"
proof -
  define d1 where "d1 = (ln (S / K) + (r + 1/2 * sigma^2) * T) / (sigma * sqrt T)"
  define d2 where "d2 = d1 - sigma * sqrt T"
  have s1: "Phi (- d1) = 1 - Phi d1" and s2: "Phi (- d2) = 1 - Phi d2"
    using assms(1) by (simp_all add: algebra_simps eq_diff_eq)
  have c: "black_scholes_price Phi (Fin S) (Fin K) (Fin T) (Fin r) (Fin sigma) ''call''
      = Inr (Fin (S * Phi d1 - K * exp (- r * T) * Phi d2))"
    using bs_formula[OF assms(2-6), of Phi r "''call''"] by (simp add: Let_def d1_def d2_def)
  have p: "black_scholes_price Phi (Fin S) (Fin K) (Fin T) (Fin r) (Fin sigma) ''put''
      = Inr (Fin (K * exp (- r * T) * Phi (- d2) - S * Phi (- d1)))"
    using bs_formula[OF assms(2-6), of Phi r "''put''"] by (simp add: Let_def d1_def d2_def)
  have "(S * Phi d1 - K * exp (- r * T) * Phi d2) - (K * exp (- r * T) * Phi (- d2) - S * Phi (- d1))
      = S - K * exp (- r * T)"
    unfolding s1 s2 by (simp add: algebra_simps)
  with c p show ?thesis by blast
qed

theorem put_call_parity_witness:
  "\<exists>c p. black_scholes_price std_normal_cdf (Fin 150) (Fin 140) (Fin (30 / 365)) (Fin (45 / 1000)) (Fin (1 / 4)) ''call'' = Inr (Fin c)
       \<and> black_scholes_price std_normal_cdf (Fin 150) (Fin 140) (Fin (30 / 365)) (Fin (45 / 1000)) (Fin (1 / 4)) ''put'' = Inr (Fin p)
       \<and> c - p = 150 - 140 * exp (- (45 / 1000) * (30 / 365))"
proof -
  have sym: "\<forall>x. std_normal_cdf x + std_normal_cdf (- x) = 1"
    by (simp add: std_normal_cdf_symmetric)
  have small: "((1 / 4)::real)\<^sup>2 \<le> float_max"
    by (rule order_trans [OF _ float_max_ge_one]) (simp add: power2_eq_square)
  from put_call_parity [OF sym _ _ _ _ small, of 150 140 "30 / 365" "45 / 1000"]
  show ?thesis by simp
qed

text \<open>
  Claim C10. The kind is not validated. Every \<^verbatim>\<open>option_type\<close> other than the
  string \<^verbatim>\<open>'call'\<close> gives what \<^verbatim>\<open>'put'\<close> gives, on all inputs: the put
  intrinsic value under the guard, the put formula on positive finite inputs (with a
  volatility whose square is a double), and no exception for the unknown kind.
\<close>

theorem option_type_two_way_default:
  assumes "option_type \<noteq> ''call''"
  shows "black_scholes_price Phi S K T r sigma option_type = black_scholes_price Phi S K T r sigma ''put''
     \<and> (fl_le T (Fin 0) \<or> fl_le sigma (Fin 0) \<longrightarrow>
           black_scholes_price Phi S K T r sigma option_type = Inr (py_max0 (fl_sub K S)))
     \<and> (0 < s \<and> 0 < k \<and> 0 < t \<and> 0 < v \<and> v\<^sup>2 \<le> float_max \<longrightarrow>
           black_scholes_price Phi (Fin s) (Fin k) (Fin t) (Fin q) (Fin v) option_type =
             Inr (Fin (k * exp (- q * t)
                         * Phi (- ((ln (s / k) + (q + 1 / 2 * v\<^sup>2) * t) / (v * sqrt t) - v * sqrt t))
                       - s * Phi (- ((ln (s / k) + (q + 1 / 2 * v\<^sup>2) * t) / (v * sqrt t))))))"
proof (intro conjI impI)
  show "black_scholes_price Phi S K T r sigma option_type = black_scholes_price Phi S K T r sigma ''put''"
    using assms by (simp add: black_scholes_price_def Let_def split: sum.splits)
next
  assume "fl_le T (Fin 0) \<or> fl_le sigma (Fin 0)"
  then show "black_scholes_price Phi S K T r sigma option_type = Inr (py_max0 (fl_sub K S))"
    using assms by (simp add: black_scholes_price_def)
next
  assume "0 < s \<and> 0 < k \<and> 0 < t \<and> 0 < v \<and> v\<^sup>2 \<le> float_max"
  then show "black_scholes_price Phi (Fin s) (Fin k) (Fin t) (Fin q) (Fin v) option_type =
             Inr (Fin (k * exp (- q * t)
                         * Phi (- ((ln (s / k) + (q + 1 / 2 * v\<^sup>2) * t) / (v * sqrt t) - v * sqrt t))
                       - s * Phi (- ((ln (s / k) + (q + 1 / 2 * v\<^sup>2) * t) / (v * sqrt t)))))"
    using assms bs_formula [of s k t v Phi q option_type] by (simp add: Let_def)
qed

theorem option_type_two_way_default_witness:
  "black_scholes_price std_normal_cdf (Fin 90) (Fin 100) (Fin 0) (Fin (45 / 1000)) (Fin (1 / 4)) ''CALL''
     = black_scholes_price std_normal_cdf (Fin 90) (Fin 100) (Fin 0) (Fin (45 / 1000)) (Fin (1 / 4)) ''put''
   \<and> black_scholes_price std_normal_cdf (Fin 90) (Fin 100) (Fin 0) (Fin (45 / 1000)) (Fin (1 / 4)) ''CALL''
     = Inr (Fin 10)
   \<and> black_scholes_price std_normal_cdf (Fin 100) (Fin 100) (Fin 1) (Fin 0) (Fin 1) ''Call''
     = Inr (Fin (100 * std_normal_cdf (1 / 2) - 100 * std_normal_cdf (- (1 / 2))))"
proof -
  have a: "''CALL'' \<noteq> ''call''" and b: "''Call'' \<noteq> ''call''"
    by simp_all
  note w1 = option_type_two_way_default [OF a, of std_normal_cdf "Fin 90" "Fin 100" "Fin 0"
      "Fin (45 / 1000)" "Fin (1 / 4)" 1 1 1 1 0]
  note w2 = option_type_two_way_default [OF b, of std_normal_cdf "Fin 90" "Fin 100" "Fin 0"
      "Fin (45 / 1000)" "Fin (1 / 4)" 100 100 1 1 0]
  from w1 have "black_scholes_price std_normal_cdf (Fin 90) (Fin 100) (Fin 0) (Fin (45 / 1000)) (Fin (1 / 4)) ''CALL''
     = black_scholes_price std_normal_cdf (Fin 90) (Fin 100) (Fin 0) (Fin (45 / 1000)) (Fin (1 / 4)) ''put''"
    by blast
  moreover from w1 [THEN conjunct2, THEN conjunct1]
  have "black_scholes_price std_normal_cdf (Fin 90) (Fin 100) (Fin 0) (Fin (45 / 1000)) (Fin (1 / 4)) ''CALL''
     = Inr (Fin 10)"
    by (simp add: py_max0_Fin fl_sub_Fin)
  moreover from w2 [THEN conjunct2, THEN conjunct2] float_max_ge_one
  have "black_scholes_price std_normal_cdf (Fin 100) (Fin 100) (Fin 1) (Fin 0) (Fin 1) ''Call''
     = Inr (Fin (100 * std_normal_cdf (1 / 2) - 100 * std_normal_cdf (- (1 / 2))))"
    by simp
  ultimately show ?thesis by blast
qed

text \<open>
  Claim C4, which the code does not satisfy as stated: a call with \<open>S = -5\<close>,
  \<open>K = -10\<close> and \<open>T = 0\<close> is priced at 5, with no failure.
\<close>

theorem pricer_accepts_nonpositive_inputs:
  "black_scholes_price std_normal_cdf (Fin (- 5)) (Fin (- 10)) (Fin 0) (Fin (45 / 1000)) (Fin (1 / 4)) ''call''
     = Inr (Fin 5)"
  by (simp add: bs_edge_case py_max0_Fin fl_sub_Fin)

text \<open>
  Claim C4 as amended. The pricer validates neither \<open>S\<close> nor \<open>K\<close> and has no
  \<^verbatim>\<open>InvalidInput\<close>: under the guard it returns the intrinsic value for all
  finite \<open>S\<close> and \<open>K\<close>, whatever their signs. On \<open>S > 0\<close> and \<open>K > 0\<close>,
  with finite \<open>T\<close>, \<open>r\<close> and \<open>sigma\<close> of any sign, it returns a value exactly
  when the guard holds or the square of \<open>sigma\<close> is a double; otherwise
  \<^verbatim>\<open>sigma ** 2\<close> raises \<^verbatim>\<open>OverflowError\<close>. When it fails at all, the
  failure is the \<^verbatim>\<open>ZeroDivisionError\<close> of \<^verbatim>\<open>S / K\<close> at \<open>K = 0\<close> or
  that \<^verbatim>\<open>OverflowError\<close>.
\<close>

theorem pricer_never_validates:
  "(fl_le T (Fin 0) \<or> fl_le sigma (Fin 0) \<longrightarrow>
      black_scholes_price Phi (Fin S) (Fin K) T r sigma ty =
        Inr (Fin (if ty = ''call'' then max 0 (S - K) else max 0 (K - S))))
   \<and> (0 < s \<and> 0 < k \<longrightarrow>
        ((\<exists>y. black_scholes_price Phi (Fin s) (Fin k) (Fin t) (Fin q) (Fin vol) ty = Inr y)
           \<longleftrightarrow> t \<le> 0 \<or> vol \<le> 0 \<or> vol\<^sup>2 \<le> float_max))
   \<and> (black_scholes_price Phi S' K' T r sigma ty = Inl e \<longrightarrow>
        e = ZeroDivisionError \<and> K' = Fin 0
        \<or> e = OverflowError \<and> (\<exists>x. sigma = Fin x \<and> float_max < x\<^sup>2))"
proof (intro conjI impI)
  assume "fl_le T (Fin 0) \<or> fl_le sigma (Fin 0)"
  then show "black_scholes_price Phi (Fin S) (Fin K) T r sigma ty =
        Inr (Fin (if ty = ''call'' then max 0 (S - K) else max 0 (K - S)))"
    by (simp add: bs_edge_case py_max0_Fin fl_sub_Fin)
next
  assume "0 < s \<and> 0 < k"
  then show "(\<exists>y. black_scholes_price Phi (Fin s) (Fin k) (Fin t) (Fin q) (Fin vol) ty = Inr y)
           \<longleftrightarrow> t \<le> 0 \<or> vol \<le> 0 \<or> vol\<^sup>2 \<le> float_max"
    by (auto simp: bs_returns_iff not_less)
next
  assume "black_scholes_price Phi S' K' T r sigma ty = Inl e"
  then show "e = ZeroDivisionError \<and> K' = Fin 0
        \<or> e = OverflowError \<and> (\<exists>x. sigma = Fin x \<and> float_max < x\<^sup>2)"
    unfolding bs_failure by blast
qed

theorem pricer_never_validates_witness:
  "black_scholes_price std_normal_cdf (Fin (- 5)) (Fin 0) (Fin (- 1)) (Fin 0) (Fin 1) ''put'' = Inr (Fin 5)
   \<and> (\<exists>y. black_scholes_price std_normal_cdf (Fin 150) (Fin 140) (Fin (- 1)) (Fin (45 / 1000)) (Fin (- 2)) ''put'' = Inr y)
   \<and> (\<exists>y. black_scholes_price std_normal_cdf (Fin 150) (Fin 140) (Fin (30 / 365)) (Fin (45 / 1000)) (Fin (1 / 4)) ''call'' = Inr y)
   \<and> (\<nexists>y. black_scholes_price std_normal_cdf (Fin 100) (Fin 100) (Fin 1) (Fin (5 / 100)) (Fin (10 ^ 200)) ''call'' = Inr y)
   \<and> black_scholes_price std_normal_cdf (Fin 100) (Fin 100) (Fin 1) (Fin (5 / 100)) (Fin (10 ^ 200)) ''call'' = Inl OverflowError
   \<and> black_scholes_price std_normal_cdf (Fin 150) (Fin 0) (Fin 1) (Fin 0) (Fin 1) ''call'' = Inl ZeroDivisionError"
proof -
  have small: "((1 / 4)::real)\<^sup>2 \<le> float_max"
    by (rule order_trans [OF _ float_max_ge_one]) (simp add: power2_eq_square)
  have big: "float_max < ((10::real) ^ 200)\<^sup>2"
    using float_max_less by (simp add: power2_eq_square)
  note w1 = pricer_never_validates [of "Fin (- 1)" "Fin 1" std_normal_cdf "- 5" 0 "Fin 0" "''put''"
      150 140 "- 1" "45 / 1000" "- 2" "Fin 150" "Fin 0" ZeroDivisionError]
  note w2 = pricer_never_validates [of "Fin 1" "Fin 1" std_normal_cdf "- 5" 0 "Fin 0" "''call''"
      150 140 "30 / 365" "45 / 1000" "1 / 4" "Fin 150" "Fin 0" ZeroDivisionError]
  note w3 = pricer_never_validates [of "Fin 1" "Fin 1" std_normal_cdf "- 5" 0 "Fin 0" "''call''"
      100 100 1 "5 / 100" "10 ^ 200" "Fin 150" "Fin 0" ZeroDivisionError]
  from w1 [THEN conjunct1]
  have "black_scholes_price std_normal_cdf (Fin (- 5)) (Fin 0) (Fin (- 1)) (Fin 0) (Fin 1) ''put'' = Inr (Fin 5)"
    by simp
  moreover from w1 [THEN conjunct2, THEN conjunct1]
  have "\<exists>y. black_scholes_price std_normal_cdf (Fin 150) (Fin 140) (Fin (- 1)) (Fin (45 / 1000)) (Fin (- 2)) ''put'' = Inr y"
    by simp
  moreover from w2 [THEN conjunct2, THEN conjunct1] small
  have "\<exists>y. black_scholes_price std_normal_cdf (Fin 150) (Fin 140) (Fin (30 / 365)) (Fin (45 / 1000)) (Fin (1 / 4)) ''call'' = Inr y"
    by simp
  moreover from w3 [THEN conjunct2, THEN conjunct1] big
  have "\<nexists>y. black_scholes_price std_normal_cdf (Fin 100) (Fin 100) (Fin 1) (Fin (5 / 100)) (Fin (10 ^ 200)) ''call'' = Inr y"
    by (simp add: not_le)
  moreover from big
  have "black_scholes_price std_normal_cdf (Fin 100) (Fin 100) (Fin 1) (Fin (5 / 100)) (Fin (10 ^ 200)) ''call'' = Inl OverflowError"
    by (simp add: bs_failure)
  moreover have "black_scholes_price std_normal_cdf (Fin 150) (Fin 0) (Fin 1) (Fin 0) (Fin 1) ''call'' = Inl ZeroDivisionError"
    by (simp add: bs_failure)
  ultimately show ?thesis by blast
qed

section \<open>The batch pricing driver: what each record gets\<close>

text \<open>
  Claim C2. The driver succeeds with \<open>out\<close> exactly when \<open>out\<close> has one record per
  input record, in order, and for each of them: \<open>bs_price\<close> is what the pricer returns
  for the batch-wide \<open>S\<close>, the record's strike, \<open>T = days_to_expiration / 365\<close>, the
  rate (0.045 when none is given), the record's implied volatility and its kind;
  \<open>pricing_error\<close> is \<open>lastPrice - bs_price\<close>; and the other columns are those of
  the input record (\<open>enriched_row.truncate\<close> drops the three new columns).
\<close>

theorem driver_prices_each_record:
  "calculate_bs_prices Phi df S r_opt = Inr out \<longleftrightarrow>
     length out = length df \<and>
     (\<forall>i<length df.
        black_scholes_price Phi S (strike (df ! i))
            (Fin (real_of_int (days_to_expiration (df ! i)) / 365))
            (case r_opt of None \<Rightarrow> Fin (45 / 1000) | Some r \<Rightarrow> r)
            (impliedVolatility (df ! i)) (opt_type (df ! i)) = Inr (bs_price (out ! i))
      \<and> pricing_error (out ! i) = fl_sub (lastPrice (df ! i)) (bs_price (out ! i))
      \<and> T_col (out ! i) = Fin (real_of_int (days_to_expiration (df ! i)) / 365)
      \<and> enriched_row.truncate (out ! i) = df ! i)"
  unfolding calculate_bs_prices_def Let_def df_apply_Inr_iff price_row_Inr_iff ..

theorem driver_prices_each_record_witness:
  "calculate_bs_prices std_normal_cdf
     [\<lparr> contractSymbol = ''AAPL250314C00100000'', opt_type = ''call'', strike = Fin 100,
         lastPrice = Fin 52, impliedVolatility = Fin (1 / 4), expiration = 1741910400000000000,
         moneyness = Fin (2 / 3), days_to_expiration = 0 \<rparr>,
      \<lparr> contractSymbol = ''AAPL260314P00150000'', opt_type = ''put'', strike = Fin 150,
         lastPrice = Fin 60, impliedVolatility = Fin 1, expiration = 1773446400000000000,
         moneyness = Fin 1, days_to_expiration = 365 \<rparr>]
     (Fin 150) None
   = Inr
     [\<lparr> contractSymbol = ''AAPL250314C00100000'', opt_type = ''call'', strike = Fin 100,
         lastPrice = Fin 52, impliedVolatility = Fin (1 / 4), expiration = 1741910400000000000,
         moneyness = Fin (2 / 3), days_to_expiration = 0,
         T_col = Fin 0, bs_price = Fin 50, pricing_error = Fin 2 \<rparr>,
      \<lparr> contractSymbol = ''AAPL260314P00150000'', opt_type = ''put'', strike = Fin 150,
         lastPrice = Fin 60, impliedVolatility = Fin 1, expiration = 1773446400000000000,
         moneyness = Fin 1, days_to_expiration = 365,
         T_col = Fin 1,
         bs_price = Fin (150 * exp (- (45 / 1000)) * std_normal_cdf (91 / 200)
                          - 150 * std_normal_cdf (- (109 / 200))),
         pricing_error = Fin (60 - (150 * exp (- (45 / 1000)) * std_normal_cdf (91 / 200)
                          - 150 * std_normal_cdf (- (109 / 200)))) \<rparr>]"
  by (rule driver_prices_each_record [THEN iffD2])
     (simp add: All_less_Suc nth_Cons' enriched_row.truncate_def bs_formula
        le_one_le_float_max bs_edge_case py_max0_Fin fl_sub_Fin)

text \<open>
  Claim C3, which the code does not satisfy as stated: a record whose implied
  volatility is missing and which expires today is neither skipped nor failed. It comes
  back priced at its intrinsic value, like any other record, and nothing reports it.
\<close>

theorem missing_volatility_priced_silently:
  "calculate_bs_prices std_normal_cdf
     [\<lparr> contractSymbol = ''AAPL250314C00100000'', opt_type = ''call'', strike = Fin 100,
         lastPrice = Fin 52, impliedVolatility = NaN, expiration = 1741910400000000000,
         moneyness = Fin (2 / 3), days_to_expiration = 0 \<rparr>]
     (Fin 150) None
   = Inr
     [\<lparr> contractSymbol = ''AAPL250314C00100000'', opt_type = ''call'', strike = Fin 100,
         lastPrice = Fin 52, impliedVolatility = NaN, expiration = 1741910400000000000,
         moneyness = Fin (2 / 3), days_to_expiration = 0,
         T_col = Fin 0, bs_price = Fin 50, pricing_error = Fin 2 \<rparr>]"
  by (simp add: calculate_bs_prices_def price_row_def Let_def bs_edge_case py_max0_Fin fl_sub_Fin)

text \<open>
  Claim C3 as amended. A record with a missing (NaN) implied volatility and a strike
  other than zero never aborts the batch, and the records before and after it are priced
  as they are without it. The driver has no side list and no \<^verbatim>\<open>MissingInput\<close>:
  the record stays in the output, at its place. With \<open>days_to_expiration > 0\<close> its
  \<open>bs_price\<close> and \<open>pricing_error\<close> are NaN; otherwise the guard of the pricer
  applies first and it is priced at its intrinsic value.
\<close>

theorem missing_volatility_isolated:
  assumes "impliedVolatility bad = NaN" and "strike bad \<noteq> Fin 0"
  shows "calculate_bs_prices Phi (pre @ bad # post) S r_opt =
     (case calculate_bs_prices Phi pre S r_opt of
        Inl e \<Rightarrow> Inl e
      | Inr out1 \<Rightarrow>
          (case calculate_bs_prices Phi post S r_opt of
             Inl e \<Rightarrow> Inl e
           | Inr out2 \<Rightarrow>
               Inr (out1 @
                 \<lparr> contractSymbol = contractSymbol bad, opt_type = opt_type bad,
                   strike = strike bad, lastPrice = lastPrice bad, impliedVolatility = NaN,
                   expiration = expiration bad, moneyness = moneyness bad,
                   days_to_expiration = days_to_expiration bad,
                   T_col = Fin (real_of_int (days_to_expiration bad) / 365),
                   bs_price =
                     (if 0 < days_to_expiration bad then NaN
                      else if opt_type bad = ''call'' then py_max0 (fl_sub S (strike bad))
                      else py_max0 (fl_sub (strike bad) S)),
                   pricing_error =
                     (if 0 < days_to_expiration bad then NaN
                      else if opt_type bad = ''call''
                        then fl_sub (lastPrice bad) (py_max0 (fl_sub S (strike bad)))
                      else fl_sub (lastPrice bad) (py_max0 (fl_sub (strike bad) S))) \<rparr>
                 # out2)))"
  unfolding calculate_bs_prices_def Let_def df_apply_append df_apply.simps
    price_row_missing_volatility [OF assms]
  by (simp split: sum.splits)

theorem missing_volatility_isolated_witness:
  "calculate_bs_prices std_normal_cdf
       [\<lparr> contractSymbol = ''AAPL250314C00100000'', opt_type = ''call'', strike = Fin 100,
           lastPrice = Fin 52, impliedVolatility = Fin (1 / 4), expiration = 1741910400000000000,
           moneyness = Fin (2 / 3), days_to_expiration = 0 \<rparr>,
        \<lparr> contractSymbol = ''AAPL260314C00140000'', opt_type = ''call'', strike = Fin 140,
           lastPrice = Fin 30, impliedVolatility = NaN, expiration = 1773446400000000000,
           moneyness = Fin (14 / 15), days_to_expiration = 365 \<rparr>,
        \<lparr> contractSymbol = ''AAPL260314P00150000'', opt_type = ''put'', strike = Fin 150,
           lastPrice = Fin 60, impliedVolatility = Fin 1, expiration = 1773446400000000000,
           moneyness = Fin 1, days_to_expiration = 365 \<rparr>]
       (Fin 150) None
     = Inr
       [\<lparr> contractSymbol = ''AAPL250314C00100000'', opt_type = ''call'', strike = Fin 100,
           lastPrice = Fin 52, impliedVolatility = Fin (1 / 4), expiration = 1741910400000000000,
           moneyness = Fin (2 / 3), days_to_expiration = 0,
           T_col = Fin 0, bs_price = Fin 50, pricing_error = Fin 2 \<rparr>,
        \<lparr> contractSymbol = ''AAPL260314C00140000'', opt_type = ''call'', strike = Fin 140,
           lastPrice = Fin 30, impliedVolatility = NaN, expiration = 1773446400000000000,
           moneyness = Fin (14 / 15), days_to_expiration = 365,
           T_col = Fin 1, bs_price = NaN, pricing_error = NaN \<rparr>,
        \<lparr> contractSymbol = ''AAPL260314P00150000'', opt_type = ''put'', strike = Fin 150,
           lastPrice = Fin 60, impliedVolatility = Fin 1, expiration = 1773446400000000000,
           moneyness = Fin 1, days_to_expiration = 365,
           T_col = Fin 1,
           bs_price = Fin (150 * exp (- (45 / 1000)) * std_normal_cdf (91 / 200)
                            - 150 * std_normal_cdf (- (109 / 200))),
           pricing_error = Fin (60 - (150 * exp (- (45 / 1000)) * std_normal_cdf (91 / 200)
                            - 150 * std_normal_cdf (- (109 / 200)))) \<rparr>]"
proof -
  let ?bad = "\<lparr> contractSymbol = ''AAPL260314C00140000'', opt_type = ''call'', strike = Fin 140,
           lastPrice = Fin 30, impliedVolatility = NaN, expiration = 1773446400000000000,
           moneyness = Fin (14 / 15), days_to_expiration = 365 \<rparr> :: enriched_row"
  let ?pre = "[\<lparr> contractSymbol = ''AAPL250314C00100000'', opt_type = ''call'', strike = Fin 100,
           lastPrice = Fin 52, impliedVolatility = Fin (1 / 4), expiration = 1741910400000000000,
           moneyness = Fin (2 / 3), days_to_expiration = 0 \<rparr>] :: enriched_row list"
  let ?post = "[\<lparr> contractSymbol = ''AAPL260314P00150000'', opt_type = ''put'', strike = Fin 150,
           lastPrice = Fin 60, impliedVolatility = Fin 1, expiration = 1773446400000000000,
           moneyness = Fin 1, days_to_expiration = 365 \<rparr>] :: enriched_row list"
  have h1: "impliedVolatility ?bad = NaN" and h2: "strike ?bad \<noteq> Fin 0"
    by simp_all
  have pre: "calculate_bs_prices std_normal_cdf ?pre (Fin 150) None =
      Inr [\<lparr> contractSymbol = ''AAPL250314C00100000'', opt_type = ''call'', strike = Fin 100,
           lastPrice = Fin 52, impliedVolatility = Fin (1 / 4), expiration = 1741910400000000000,
           moneyness = Fin (2 / 3), days_to_expiration = 0,
           T_col = Fin 0, bs_price = Fin 50, pricing_error = Fin 2 \<rparr>]"
    by (simp add: calculate_bs_prices_def price_row_def Let_def bs_edge_case py_max0_Fin fl_sub_Fin)
  have post: "calculate_bs_prices std_normal_cdf ?post (Fin 150) None =
      Inr [\<lparr> contractSymbol = ''AAPL260314P00150000'', opt_type = ''put'', strike = Fin 150,
           lastPrice = Fin 60, impliedVolatility = Fin 1, expiration = 1773446400000000000,
           moneyness = Fin 1, days_to_expiration = 365,
           T_col = Fin 1,
           bs_price = Fin (150 * exp (- (45 / 1000)) * std_normal_cdf (91 / 200)
                            - 150 * std_normal_cdf (- (109 / 200))),
           pricing_error = Fin (60 - (150 * exp (- (45 / 1000)) * std_normal_cdf (91 / 200)
                            - 150 * std_normal_cdf (- (109 / 200)))) \<rparr>]"
    by (simp add: calculate_bs_prices_def price_row_def Let_def bs_formula le_one_le_float_max
        fl_sub_Fin)
  show ?thesis
    using missing_volatility_isolated [OF h1 h2, of std_normal_cdf ?pre ?post "Fin 150" None]
    unfolding pre post by simp
qed

section \<open>The enricher: what it accepts and what it computes\<close>

text \<open>
  Claim C5, which the code does not satisfy as stated: with the underlying price
  \<open>-2\<close> the enricher does not fail. It returns the record with the moneyness
  \<open>100 / (-2) = -50\<close>.
\<close>

theorem enricher_accepts_negative_price:
  "enrich_option_data 1740835800000000000
     [\<lparr> contractSymbol = ''AAPL250314C00100000'', opt_type = ''call'', strike = Fin 100,
         lastPrice = Fin 52, impliedVolatility = Fin (1 / 4), expiration = Date 2025 3 14 \<rparr>]
     (Fin (- 2))
   = Inr
     [\<lparr> contractSymbol = ''AAPL250314C00100000'', opt_type = ''call'', strike = Fin 100,
         lastPrice = Fin 52, impliedVolatility = Fin (1 / 4), expiration = 1741910400000000000,
         moneyness = Fin (- 50), days_to_expiration = 13 \<rparr>]"
  by (simp add: enrich_option_data_def enrich_row_def to_datetime_def normalize_def td_days_def
      day_ns_def days_before_year_def days_before_month_def days_in_month_def month_lengths_def
      is_leap_def)

text \<open>
  Claim C5 as amended. The enricher does not look at the sign of the underlying price
  and has no \<^verbatim>\<open>InvalidInput\<close>: for every underlying price, positive, zero or
  negative, and every sequence of records whose expiration dates are dates of the
  calendar, it succeeds, with one record per input record and the moneyness
  \<open>strike / underlying_price\<close> in floating point (the real quotient when the strike
  is finite and the price is finite and not zero). It fails only on an expiration that
  is not a date.
\<close>

theorem enricher_never_validates_price:
  "((\<forall>row\<in>set df. valid_date (expiration row)) \<longrightarrow>
      (\<exists>out. enrich_option_data today df underlying_price = Inr out
         \<and> length out = length df
         \<and> (\<forall>i<length df. moneyness (out ! i) = fl_div (strike (df ! i)) underlying_price)
         \<and> (\<forall>i<length df. \<forall>k u. strike (df ! i) = Fin k \<and> underlying_price = Fin u \<and> u \<noteq> 0
               \<longrightarrow> moneyness (out ! i) = Fin (k / u))))
   \<and> (enrich_option_data today df underlying_price = Inl e \<longrightarrow>
        e = ValueError \<and> (\<exists>row\<in>set df. \<not> valid_date (expiration row)))"
proof (intro conjI impI)
  assume valid: "\<forall>row\<in>set df. valid_date (expiration row)"
  have "\<exists>out. df_apply (enrich_row (normalize today) underlying_price) df = Inr out"
    using valid by (intro df_apply_total) (simp add: enrich_row_Inr_iff)
  then obtain out where out: "df_apply (enrich_row (normalize today) underlying_price) df = Inr out"
    by blast
  then have len: "length out = length df"
    and m: "\<forall>i<length df. moneyness (out ! i) = fl_div (strike (df ! i)) underlying_price"
    by (simp_all add: df_apply_Inr_iff enrich_row_Inr_iff)
  from m have "\<forall>i<length df. \<forall>k u. strike (df ! i) = Fin k \<and> underlying_price = Fin u \<and> u \<noteq> 0
               \<longrightarrow> moneyness (out ! i) = Fin (k / u)"
    by simp
  with out len m show "\<exists>out. enrich_option_data today df underlying_price = Inr out
         \<and> length out = length df
         \<and> (\<forall>i<length df. moneyness (out ! i) = fl_div (strike (df ! i)) underlying_price)
         \<and> (\<forall>i<length df. \<forall>k u. strike (df ! i) = Fin k \<and> underlying_price = Fin u \<and> u \<noteq> 0
               \<longrightarrow> moneyness (out ! i) = Fin (k / u))"
    unfolding enrich_option_data_def Let_def by blast
next
  assume "enrich_option_data today df underlying_price = Inl e"
  then show "e = ValueError" and "\<exists>row\<in>set df. \<not> valid_date (expiration row)"
    by (auto simp: enrich_option_data_def enrich_row_Inl_iff dest!: df_apply_Inl)
qed

theorem enricher_never_validates_price_witness:
  "(\<exists>out. enrich_option_data 1740835800000000000
       [\<lparr> contractSymbol = ''AAPL250314C00100000'', opt_type = ''call'', strike = Fin 100,
           lastPrice = Fin 52, impliedVolatility = Fin (1 / 4), expiration = Date 2025 3 14 \<rparr>]
       (Fin (- 2)) = Inr out
     \<and> length out = 1 \<and> moneyness (out ! 0) = Fin (- 50))
   \<and> (\<exists>out. enrich_option_data 1740835800000000000
       [\<lparr> contractSymbol = ''AAPL250314C00100000'', opt_type = ''call'', strike = Fin 100,
           lastPrice = Fin 52, impliedVolatility = Fin (1 / 4), expiration = Date 2025 3 14 \<rparr>]
       (Fin 0) = Inr out
     \<and> length out = 1 \<and> moneyness (out ! 0) = PInf)
   \<and> enrich_option_data 1740835800000000000
       [\<lparr> contractSymbol = ''AAPL250230C00100000'', opt_type = ''call'', strike = Fin 100,
           lastPrice = Fin 52, impliedVolatility = Fin (1 / 4), expiration = Date 2025 2 30 \<rparr>]
       (Fin 150) = Inl ValueError
   \<and> \<not> valid_date (Date 2025 2 30)"
proof -
  let ?df = "[\<lparr> contractSymbol = ''AAPL250314C00100000'', opt_type = ''call'', strike = Fin 100,
           lastPrice = Fin 52, impliedVolatility = Fin (1 / 4), expiration = Date 2025 3 14 \<rparr>]"
  let ?bad = "[\<lparr> contractSymbol = ''AAPL250230C00100000'', opt_type = ''call'', strike = Fin 100,
           lastPrice = Fin 52, impliedVolatility = Fin (1 / 4), expiration = Date 2025 2 30 \<rparr>]"
  have v: "\<forall>row\<in>set ?df. valid_date (expiration row)"
    by (simp add: days_in_month_def month_lengths_def)
  have f: "enrich_option_data 1740835800000000000 ?bad (Fin 150) = Inl ValueError"
    by (simp add: enrich_option_data_def enrich_row_def to_datetime_def days_in_month_def
        month_lengths_def is_leap_def)
  from f enricher_never_validates_price [of ?bad 1740835800000000000 "Fin 150" ValueError, THEN conjunct2, THEN mp, OF f]
    enricher_never_validates_price [of ?df 1740835800000000000 "Fin (- 2)" ValueError, THEN conjunct1, THEN mp, OF v]
    enricher_never_validates_price [of ?df 1740835800000000000 "Fin 0" ValueError, THEN conjunct1, THEN mp, OF v]
  show ?thesis
    by (simp add: inf_of_sign_def)
qed

text \<open>
  Claim C7. Let the clock show any time of the day \<open>asOf\<close>, and let the enricher
  succeed on an underlying price \<open>u > 0\<close>. Then for each record: the moneyness is
  \<open>strike / u\<close>; \<open>days_to_expiration\<close> is the difference of the day numbers of
  the expiration date and of \<open>asOf\<close>, negative for an expired contract, never
  clamped; and the driver's \<open>T\<close> is that difference divided by 365. The witness
  below is the case of 2025-03-01 and 2025-03-31 (30 days, \<open>T = 30 / 365\<close>), with a
  contract that expired 8 days before.
\<close>

theorem enrichment_fields:
  assumes "enrich_option_data today df (Fin u) = Inr out" and "0 < u" and "i < length df"
    and "today = (date_ordinal asOf - 719163) * day_ns + time_of_day"
    and "0 \<le> time_of_day" and "time_of_day < day_ns"
  shows "moneyness (out ! i) = fl_div (strike (df ! i)) (Fin u)
     \<and> (\<forall>k. strike (df ! i) = Fin k \<longrightarrow> moneyness (out ! i) = Fin (k / u))
     \<and> days_to_expiration (out ! i) = date_ordinal (expiration (df ! i)) - date_ordinal asOf
     \<and> (\<forall>priced. calculate_bs_prices Phi out S r_opt = Inr priced \<longrightarrow>
           T_col (priced ! i) =
             Fin (real_of_int (date_ordinal (expiration (df ! i)) - date_ordinal asOf) / 365))"
proof -
  have n: "normalize today = (date_ordinal asOf - 719163) * day_ns"
    unfolding assms(4) using assms(5,6) by (rule normalize_within_day)
  from assms(1,3) have len: "length out = length df"
    and row: "enrich_row (normalize today) (Fin u) (df ! i) = Inr (out ! i)"
    by (simp_all add: enrich_option_data_def df_apply_Inr_iff)
  from row have m: "moneyness (out ! i) = fl_div (strike (df ! i)) (Fin u)"
    and "days_to_expiration (out ! i) =
      td_days ((date_ordinal (expiration (df ! i)) - 719163) * day_ns - normalize today)"
    by (simp_all add: enrich_row_Inr_iff)
  then have d: "days_to_expiration (out ! i) = date_ordinal (expiration (df ! i)) - date_ordinal asOf"
    unfolding n td_days_whole by simp
  from m assms(2) have k: "\<forall>k. strike (df ! i) = Fin k \<longrightarrow> moneyness (out ! i) = Fin (k / u)"
    by simp
  have "\<forall>priced. calculate_bs_prices Phi out S r_opt = Inr priced \<longrightarrow>
           T_col (priced ! i) =
             Fin (real_of_int (date_ordinal (expiration (df ! i)) - date_ordinal asOf) / 365)"
    using assms(3) len d
    by (simp add: calculate_bs_prices_def Let_def df_apply_Inr_iff price_row_Inr_iff)
  with m k d show ?thesis by blast
qed

theorem enrichment_fields_witness:
  "\<exists>out priced.
     enrich_option_data 1740835800000000000
       [\<lparr> contractSymbol = ''AAPL250331C00150000'', opt_type = ''call'', strike = Fin 150,
           lastPrice = Fin 5, impliedVolatility = Fin (1 / 4), expiration = Date 2025 3 31 \<rparr>,
        \<lparr> contractSymbol = ''AAPL250221P00120000'', opt_type = ''put'', strike = Fin 120,
           lastPrice = Fin 1, impliedVolatility = Fin (1 / 4), expiration = Date 2025 2 21 \<rparr>]
       (Fin 150) = Inr out
     \<and> moneyness (out ! 0) = Fin 1 \<and> days_to_expiration (out ! 0) = 30
     \<and> moneyness (out ! 1) = Fin (4 / 5) \<and> days_to_expiration (out ! 1) = - 8
     \<and> calculate_bs_prices std_normal_cdf out (Fin 150) None = Inr priced
     \<and> T_col (priced ! 0) = Fin (30 / 365) \<and> T_col (priced ! 1) = Fin (- 8 / 365)"
proof -
  let ?df = "[\<lparr> contractSymbol = ''AAPL250331C00150000'', opt_type = ''call'', strike = Fin 150,
           lastPrice = Fin 5, impliedVolatility = Fin (1 / 4), expiration = Date 2025 3 31 \<rparr>,
        \<lparr> contractSymbol = ''AAPL250221P00120000'', opt_type = ''put'', strike = Fin 120,
           lastPrice = Fin 1, impliedVolatility = Fin (1 / 4), expiration = Date 2025 2 21 \<rparr>]"
  let ?out = "[\<lparr> contractSymbol = ''AAPL250331C00150000'', opt_type = ''call'', strike = Fin 150,
           lastPrice = Fin 5, impliedVolatility = Fin (1 / 4), expiration = 1743379200000000000,
           moneyness = Fin 1, days_to_expiration = 30 \<rparr>,
        \<lparr> contractSymbol = ''AAPL250221P00120000'', opt_type = ''put'', strike = Fin 120,
           lastPrice = Fin 1, impliedVolatility = Fin (1 / 4), expiration = 1740096000000000000,
           moneyness = Fin (4 / 5), days_to_expiration = - 8 \<rparr>] :: enriched_row list"
  have e: "enrich_option_data 1740835800000000000 ?df (Fin 150) = Inr ?out"
    by (simp add: enrich_option_data_def enrich_row_def to_datetime_def normalize_def td_days_def
      day_ns_def days_before_year_def days_before_month_def days_in_month_def month_lengths_def
      is_leap_def)
  have t: "(1740835800000000000 :: int) = (date_ordinal (Date 2025 3 1) - 719163) * day_ns + 48600000000000"
    by (simp add: day_ns_def days_before_year_def days_before_month_def month_lengths_def is_leap_def)
  have "\<exists>priced. calculate_bs_prices std_normal_cdf ?out (Fin 150) None = Inr priced"
    by (rule calculate_bs_prices_total) (simp add: py_pow2_small del: py_pow2.simps)
  then obtain priced where p: "calculate_bs_prices std_normal_cdf ?out (Fin 150) None = Inr priced"
    by blast
  have ords: "date_ordinal (Date 2025 3 31) - date_ordinal (Date 2025 3 1) = 30"
    "date_ordinal (Date 2025 2 21) - date_ordinal (Date 2025 3 1) = - 8"
    by (simp_all add: days_before_year_def days_before_month_def month_lengths_def is_leap_def)
  have a: "(0::real) < 150" and b: "(0::int) \<le> 48600000000000" and c: "48600000000000 < day_ns"
    by (simp_all add: day_ns_def)
  have i0: "0 < length ?df" and i1: "1 < length ?df" by simp_all
  note w0 = enrichment_fields [OF e a i0 t b c, of std_normal_cdf "Fin 150" None]
  note w1 = enrichment_fields [OF e a i1 t b c, of std_normal_cdf "Fin 150" None]
  from w0 p have "T_col (priced ! 0) = Fin (30 / 365)"
    using ords by simp
  moreover from w1 p have "T_col (priced ! 1) = Fin (- 8 / 365)"
    using ords by simp
  ultimately show ?thesis
    using e p by (intro exI [of _ ?out] exI [of _ priced]) simp
qed

section \<open>The pipeline and the clock\<close>

text \<open>
  Claim C8, which the code does not satisfy as stated: the enricher has no
  \<^verbatim>\<open>asOfDate\<close> parameter, it reads the clock. The same records and the same
  underlying price give different outputs on 2025-03-01 and on 2025-03-02.
\<close>

theorem pipeline_depends_on_clock:
  "pipeline std_normal_cdf 1740835800000000000
     [\<lparr> contractSymbol = ''AAPL250314C00100000'', opt_type = ''call'', strike = Fin 100,
         lastPrice = Fin 52, impliedVolatility = Fin (1 / 4), expiration = Date 2025 3 14 \<rparr>]
     (Fin 150)
   \<noteq> pipeline std_normal_cdf 1740922200000000000
     [\<lparr> contractSymbol = ''AAPL250314C00100000'', opt_type = ''call'', strike = Fin 100,
         lastPrice = Fin 52, impliedVolatility = Fin (1 / 4), expiration = Date 2025 3 14 \<rparr>]
     (Fin 150)"
proof -
  let ?df = "[\<lparr> contractSymbol = ''AAPL250314C00100000'', opt_type = ''call'', strike = Fin 100,
         lastPrice = Fin 52, impliedVolatility = Fin (1 / 4), expiration = Date 2025 3 14 \<rparr>]"
  let ?row = "\<lambda>d. \<lparr> contractSymbol = ''AAPL250314C00100000'', opt_type = ''call'', strike = Fin 100,
         lastPrice = Fin 52, impliedVolatility = Fin (1 / 4), expiration = 1741910400000000000,
         moneyness = Fin (2 / 3), days_to_expiration = d \<rparr> :: enriched_row"
  have e1: "enrich_option_data 1740835800000000000 ?df (Fin 150) = Inr [?row 13]"
    and e2: "enrich_option_data 1740922200000000000 ?df (Fin 150) = Inr [?row 12]"
    by (simp_all add: enrich_option_data_def enrich_row_def to_datetime_def normalize_def td_days_def
      day_ns_def days_before_year_def days_before_month_def days_in_month_def month_lengths_def
      is_leap_def)
  obtain p1 where p1: "calculate_bs_prices std_normal_cdf [?row 13] (Fin 150) None = Inr p1"
    using calculate_bs_prices_total [of "[?row 13]" std_normal_cdf "Fin 150" None]
    by (auto simp: py_pow2_small simp del: py_pow2.simps)
  obtain p2 where p2: "calculate_bs_prices std_normal_cdf [?row 12] (Fin 150) None = Inr p2"
    using calculate_bs_prices_total [of "[?row 12]" std_normal_cdf "Fin 150" None]
    by (auto simp: py_pow2_small simp del: py_pow2.simps)
  from calculate_bs_prices_rows(2) [OF p1, of 0] have "days_to_expiration (p1 ! 0) = 13"
    by (simp add: truncate_days_to_expiration)
  moreover from calculate_bs_prices_rows(2) [OF p2, of 0] have "days_to_expiration (p2 ! 0) = 12"
    by (simp add: truncate_days_to_expiration)
  ultimately have "p1 \<noteq> p2" by auto
  then show ?thesis
    by (simp add: pipeline_def e1 e2 p1 p2)
qed

text \<open>
  Claim C8 as amended. The output of the pipeline is determined by the raw records, the
  underlying price and the calendar date the clock shows when the enricher is called:
  two runs at clock readings of the same date, at whatever time of day, give the same
  output. The date is read once per call, so every record of a batch is measured
  against the same midnight.
\<close>

theorem pipeline_fixed_by_calendar_date:
  "(normalize t1 = normalize t2 \<longrightarrow>
      enrich_option_data t1 df S = enrich_option_data t2 df S
      \<and> pipeline Phi t1 df S = pipeline Phi t2 df S)
   \<and> (enrich_option_data today df S = Inr out \<longrightarrow>
        (\<forall>i<length df. days_to_expiration (out ! i) =
           td_days ((date_ordinal (expiration (df ! i)) - 719163) * day_ns - normalize today)))"
  by (simp add: pipeline_def enrich_option_data_def Let_def df_apply_Inr_iff enrich_row_Inr_iff)

theorem pipeline_fixed_by_calendar_date_witness:
  "pipeline std_normal_cdf 1740787200000000000
     [\<lparr> contractSymbol = ''AAPL250314C00100000'', opt_type = ''call'', strike = Fin 100,
         lastPrice = Fin 52, impliedVolatility = Fin (1 / 4), expiration = Date 2025 3 14 \<rparr>]
     (Fin 150)
   = pipeline std_normal_cdf 1740835800000000000
     [\<lparr> contractSymbol = ''AAPL250314C00100000'', opt_type = ''call'', strike = Fin 100,
         lastPrice = Fin 52, impliedVolatility = Fin (1 / 4), expiration = Date 2025 3 14 \<rparr>]
     (Fin 150)
   \<and> (\<exists>out. enrich_option_data 1740835800000000000
         [\<lparr> contractSymbol = ''AAPL250314C00100000'', opt_type = ''call'', strike = Fin 100,
             lastPrice = Fin 52, impliedVolatility = Fin (1 / 4), expiration = Date 2025 3 14 \<rparr>,
          \<lparr> contractSymbol = ''AAPL250221P00120000'', opt_type = ''put'', strike = Fin 120,
             lastPrice = Fin 1, impliedVolatility = Fin (1 / 4), expiration = Date 2025 2 21 \<rparr>]
         (Fin 150) = Inr out
       \<and> days_to_expiration (out ! 0) = 13 \<and> days_to_expiration (out ! 1) = - 8)"
proof -
  let ?df = "[\<lparr> contractSymbol = ''AAPL250314C00100000'', opt_type = ''call'', strike = Fin 100,
             lastPrice = Fin 52, impliedVolatility = Fin (1 / 4), expiration = Date 2025 3 14 \<rparr>,
          \<lparr> contractSymbol = ''AAPL250221P00120000'', opt_type = ''put'', strike = Fin 120,
             lastPrice = Fin 1, impliedVolatility = Fin (1 / 4), expiration = Date 2025 2 21 \<rparr>]"
  have n: "normalize 1740787200000000000 = normalize 1740835800000000000"
    by (simp add: normalize_def day_ns_def)
  obtain out where e: "enrich_option_data 1740835800000000000 ?df (Fin 150) = Inr out"
    by (simp add: enrich_option_data_def Let_def enrich_row_def to_datetime_def days_in_month_def
        month_lengths_def is_leap_def)
  have d: "td_days ((date_ordinal (Date 2025 3 14) - 719163) * day_ns - normalize 1740835800000000000) = 13"
    "td_days ((date_ordinal (Date 2025 2 21) - 719163) * day_ns - normalize 1740835800000000000) = - 8"
    by (simp_all add: td_days_def normalize_def day_ns_def days_before_year_def
        days_before_month_def month_lengths_def is_leap_def)
  from pipeline_fixed_by_calendar_date [THEN conjunct2, THEN mp, OF e] d
  have "days_to_expiration (out ! 0) = 13 \<and> days_to_expiration (out ! 1) = - 8"
    by (simp add: All_less_Suc)
  with e pipeline_fixed_by_calendar_date [THEN conjunct1, THEN mp, OF n, THEN conjunct2]
  show ?thesis by blast
qed

section \<open>Neither stage mutates its input\<close>

text \<open>
  Claim C9. After a call of either stage every frame that existed before, the input
  among them, is what it was; the store has exactly one more frame; and the reference
  returned is the new one, which no earlier name refers to. On a raw frame the new
  frame of the enricher holds the enriched rows, on an enriched frame the new frame of
  the driver holds the priced rows.
\<close>

theorem stages_leave_input_unchanged:
  "(enrich_option_data_obj today st df p = (st', res) \<longrightarrow>
      (\<forall>a<length st. st' ! a = st ! a) \<and> length st' = Suc (length st)
      \<and> (\<forall>d. res = Inr d \<longrightarrow> d = length st)
      \<and> (\<forall>rows out. df < length st \<and> st ! df = RawFrame rows
            \<and> enrich_option_data today rows p = Inr out
            \<longrightarrow> res = Inr (length st) \<and> st' ! length st = EnrichedFrame out))
   \<and> (calculate_bs_prices_obj Phi st df S r_opt = (st'', res') \<longrightarrow>
      (\<forall>a<length st. st'' ! a = st ! a) \<and> length st'' = Suc (length st)
      \<and> (\<forall>d. res' = Inr d \<longrightarrow> d = length st)
      \<and> (\<forall>rows out. df < length st \<and> st ! df = EnrichedFrame rows
            \<and> calculate_bs_prices Phi rows S r_opt = Inr out
            \<longrightarrow> res' = Inr (length st) \<and> st'' ! length st = PricedFrame out))"
proof (intro conjI impI)
  assume a: "enrich_option_data_obj today st df p = (st', res)"
  from enrich_option_data_obj_frame [OF a]
  show "\<forall>a<length st. st' ! a = st ! a" and "length st' = Suc (length st)"
    and "\<forall>d. res = Inr d \<longrightarrow> d = length st"
    by blast+
  show "\<forall>rows out. df < length st \<and> st ! df = RawFrame rows
            \<and> enrich_option_data today rows p = Inr out
            \<longrightarrow> res = Inr (length st) \<and> st' ! length st = EnrichedFrame out"
    using a by (auto simp: enrich_option_data_obj_def df_copy_def Let_def)
next
  assume a: "calculate_bs_prices_obj Phi st df S r_opt = (st'', res')"
  from calculate_bs_prices_obj_frame [OF a]
  show "\<forall>a<length st. st'' ! a = st ! a" and "length st'' = Suc (length st)"
    and "\<forall>d. res' = Inr d \<longrightarrow> d = length st"
    by blast+
  show "\<forall>rows out. df < length st \<and> st ! df = EnrichedFrame rows
            \<and> calculate_bs_prices Phi rows S r_opt = Inr out
            \<longrightarrow> res' = Inr (length st) \<and> st'' ! length st = PricedFrame out"
    using a by (auto simp: calculate_bs_prices_obj_def df_copy_def Let_def)
qed

theorem stages_leave_input_unchanged_witness:
  "enrich_option_data_obj 1740835800000000000
     [RawFrame [\<lparr> contractSymbol = ''AAPL250301C00100000'', opt_type = ''call'', strike = Fin 100,
         lastPrice = Fin 52, impliedVolatility = Fin (1 / 4), expiration = Date 2025 3 1 \<rparr>]]
     0 (Fin 150)
   = ([RawFrame [\<lparr> contractSymbol = ''AAPL250301C00100000'', opt_type = ''call'', strike = Fin 100,
         lastPrice = Fin 52, impliedVolatility = Fin (1 / 4), expiration = Date 2025 3 1 \<rparr>],
       EnrichedFrame [\<lparr> contractSymbol = ''AAPL250301C00100000'', opt_type = ''call'',
         strike = Fin 100, lastPrice = Fin 52, impliedVolatility = Fin (1 / 4),
         expiration = 1740787200000000000, moneyness = Fin (2 / 3), days_to_expiration = 0 \<rparr>]],
      Inr 1)
   \<and> calculate_bs_prices_obj std_normal_cdf
     [RawFrame [\<lparr> contractSymbol = ''AAPL250301C00100000'', opt_type = ''call'', strike = Fin 100,
         lastPrice = Fin 52, impliedVolatility = Fin (1 / 4), expiration = Date 2025 3 1 \<rparr>],
      EnrichedFrame [\<lparr> contractSymbol = ''AAPL250301C00100000'', opt_type = ''call'',
         strike = Fin 100, lastPrice = Fin 52, impliedVolatility = Fin (1 / 4),
         expiration = 1740787200000000000, moneyness = Fin (2 / 3), days_to_expiration = 0 \<rparr>]]
     1 (Fin 150) None
   = ([RawFrame [\<lparr> contractSymbol = ''AAPL250301C00100000'', opt_type = ''call'', strike = Fin 100,
         lastPrice = Fin 52, impliedVolatility = Fin (1 / 4), expiration = Date 2025 3 1 \<rparr>],
       EnrichedFrame [\<lparr> contractSymbol = ''AAPL250301C00100000'', opt_type = ''call'',
         strike = Fin 100, lastPrice = Fin 52, impliedVolatility = Fin (1 / 4),
         expiration = 1740787200000000000, moneyness = Fin (2 / 3), days_to_expiration = 0 \<rparr>],
       PricedFrame [\<lparr> contractSymbol = ''AAPL250301C00100000'', opt_type = ''call'',
         strike = Fin 100, lastPrice = Fin 52, impliedVolatility = Fin (1 / 4),
         expiration = 1740787200000000000, moneyness = Fin (2 / 3), days_to_expiration = 0,
         T_col = Fin 0, bs_price = Fin 50, pricing_error = Fin 2 \<rparr>]],
      Inr 2)"
proof -
  let ?raw = "[\<lparr> contractSymbol = ''AAPL250301C00100000'', opt_type = ''call'', strike = Fin 100,
         lastPrice = Fin 52, impliedVolatility = Fin (1 / 4), expiration = Date 2025 3 1 \<rparr>]"
  let ?enr = "[\<lparr> contractSymbol = ''AAPL250301C00100000'', opt_type = ''call'',
         strike = Fin 100, lastPrice = Fin 52, impliedVolatility = Fin (1 / 4),
         expiration = 1740787200000000000, moneyness = Fin (2 / 3), days_to_expiration = 0 \<rparr>]
         :: enriched_row list"
  let ?prc = "[\<lparr> contractSymbol = ''AAPL250301C00100000'', opt_type = ''call'',
         strike = Fin 100, lastPrice = Fin 52, impliedVolatility = Fin (1 / 4),
         expiration = 1740787200000000000, moneyness = Fin (2 / 3), days_to_expiration = 0,
         T_col = Fin 0, bs_price = Fin 50, pricing_error = Fin 2 \<rparr>] :: priced_row list"
  have e: "enrich_option_data 1740835800000000000 ?raw (Fin 150) = Inr ?enr"
    by (simp add: enrich_option_data_def enrich_row_def to_datetime_def normalize_def td_days_def
      day_ns_def days_before_year_def days_before_month_def days_in_month_def month_lengths_def
      is_leap_def)
  have c: "calculate_bs_prices std_normal_cdf ?enr (Fin 150) None = Inr ?prc"
    by (simp add: calculate_bs_prices_def price_row_def Let_def bs_edge_case py_max0_Fin fl_sub_Fin)
  define st1 where "st1 = fst (enrich_option_data_obj 1740835800000000000 [RawFrame ?raw] 0 (Fin 150))"
  define res1 where "res1 = snd (enrich_option_data_obj 1740835800000000000 [RawFrame ?raw] 0 (Fin 150))"
  have x1: "enrich_option_data_obj 1740835800000000000 [RawFrame ?raw] 0 (Fin 150) = (st1, res1)"
    unfolding st1_def res1_def by (rule prod.collapse [symmetric])
  note f1 = stages_leave_input_unchanged [THEN conjunct1, THEN mp, OF x1]
  have pre1: "0 < length [RawFrame ?raw] \<and> [RawFrame ?raw] ! 0 = RawFrame ?raw
      \<and> enrich_option_data 1740835800000000000 ?raw (Fin 150) = Inr ?enr"
    using e by simp
  from f1 [THEN conjunct1] have a1: "st1 ! 0 = RawFrame ?raw" by simp
  from f1 [THEN conjunct2, THEN conjunct1] have l1: "length st1 = 2" by simp
  from f1 [THEN conjunct2, THEN conjunct2, THEN conjunct2, THEN spec, THEN spec, THEN mp, OF pre1]
  have n1: "res1 = Inr 1" "st1 ! 1 = EnrichedFrame ?enr" by simp_all
  from a1 l1 n1 have r1: "st1 = [RawFrame ?raw, EnrichedFrame ?enr]" "res1 = Inr 1"
    by (simp_all add: list_eq_iff_nth_eq All_less_Suc numeral_2_eq_2 numeral_3_eq_3)
  define st2 where "st2 = fst (calculate_bs_prices_obj std_normal_cdf
      [RawFrame ?raw, EnrichedFrame ?enr] 1 (Fin 150) None)"
  define res2 where "res2 = snd (calculate_bs_prices_obj std_normal_cdf
      [RawFrame ?raw, EnrichedFrame ?enr] 1 (Fin 150) None)"
  have x2: "calculate_bs_prices_obj std_normal_cdf [RawFrame ?raw, EnrichedFrame ?enr] 1 (Fin 150) None
       = (st2, res2)"
    unfolding st2_def res2_def by (rule prod.collapse [symmetric])
  note f2 = stages_leave_input_unchanged [THEN conjunct2, THEN mp, OF x2]
  have pre2: "1 < length [RawFrame ?raw, EnrichedFrame ?enr]
      \<and> [RawFrame ?raw, EnrichedFrame ?enr] ! 1 = EnrichedFrame ?enr
      \<and> calculate_bs_prices std_normal_cdf ?enr (Fin 150) None = Inr ?prc"
    using c by simp
  from f2 [THEN conjunct1] have a2: "st2 ! 0 = RawFrame ?raw" "st2 ! 1 = EnrichedFrame ?enr"
    by (simp_all add: All_less_Suc)
  from f2 [THEN conjunct2, THEN conjunct1] have l2: "length st2 = 3" by simp
  from f2 [THEN conjunct2, THEN conjunct2, THEN conjunct2, THEN spec, THEN spec, THEN mp, OF pre2]
  have n2: "res2 = Inr 2" "st2 ! 2 = PricedFrame ?prc" by (simp_all add: numeral_2_eq_2)
  from a2 l2 n2 have r2: "st2 = [RawFrame ?raw, EnrichedFrame ?enr, PricedFrame ?prc]" "res2 = Inr 2"
    by (simp_all add: list_eq_iff_nth_eq All_less_Suc numeral_2_eq_2 numeral_3_eq_3)
  show ?thesis
    using x1 x2 unfolding r1 r2 by (rule conjI)
qed

end
